theory Spec2Isabelle
  imports Main "HOL-Library.Multiset"
begin

section \<open>Python values, truthiness and string formatting\<close>

text \<open>
  The arguments of a tool call arrive as keyword arguments decoded from the model's JSON
  request. The tool schemas admit strings and integers; an omitted optional argument is
  \<open>None\<close>. Strings are byte lists; the only non-ASCII character the code writes (the
  bullet of the outline) is given by its UTF-8 bytes.
\<close>

datatype pyval = PNone | PInt int | PStr string

text \<open>\<open>bool(v)\<close>, as tested by \<open>if v:\<close>.\<close>

fun truthy :: "pyval \<Rightarrow> bool" where
  "truthy PNone = False"
| "truthy (PInt i) = (i \<noteq> 0)"
| "truthy (PStr s) = (s \<noteq> [])"

definition digit :: "nat \<Rightarrow> char" where
  "digit d = ''0123456789'' ! (d mod 10)"

text \<open>\<open>str(n)\<close> for a non-negative integer: decimal, no leading zeros.\<close>

function str_nat :: "nat \<Rightarrow> string" where
  "str_nat n = (if n < 10 then [digit n] else str_nat (n div 10) @ [digit n])"
  by pat_completeness auto
termination
  by (relation "measure (\<lambda>n. n)") auto

declare str_nat.simps [simp del]

definition str_int :: "int \<Rightarrow> string" where
  "str_int i = (if i < 0 then ''-'' @ str_nat (nat (- i)) else str_nat (nat i))"

text \<open>\<open>str(v)\<close>, which is what an f-string field \<open>{v}\<close> inserts.\<close>

fun fmt :: "pyval \<Rightarrow> string" where
  "fmt PNone = ''None''"
| "fmt (PInt i) = str_int i"
| "fmt (PStr s) = s"

text \<open>\<open>sep.join(xs)\<close>.\<close>

fun join :: "string \<Rightarrow> string list \<Rightarrow> string" where
  "join sep [] = []"
| "join sep [x] = x"
| "join sep (x # y # ys) = x @ sep @ join sep (y # ys)"

abbreviation NL :: string where
  "NL \<equiv> [CHR 0x0A]"

text \<open>Truthiness of an \<open>Optional[str]\<close>: \<open>None\<close> and the empty string are false.\<close>

fun truthy_str :: "string option \<Rightarrow> bool" where
  "truthy_str None = False"
| "truthy_str (Some s) = (s \<noteq> [])"


section \<open>Search results and the vector store interface\<close>

text \<open>
  Modelled from the spec: the metadata of a content chunk. \<open>vector_store.py\<close> is not
  among the sources; the retrieval backend contract gives each chunk the metadata
  \<open>{course_title, lesson_number?, chunk_index}\<close>, a title string and an integer lesson
  number. A field is \<open>None\<close> when the dictionary has no such key.
\<close>

record chunk_meta =
  course_title :: "string option"
  lesson_number :: "int option"

text \<open>
  Modelled from the spec: the class \<open>SearchResults\<close> of \<open>vector_store.py\<close>, which is not
  among the sources. The tests construct it from the parallel lists \<open>documents\<close>,
  \<open>metadata\<close> and \<open>distances\<close> and an optional \<open>error\<close> string. The tools never read
  the distances, so they are left out.
\<close>

record SearchResults =
  documents :: "string list"
  metadata :: "chunk_meta list"
  error :: "string option"

text \<open>
  Modelled from the spec: \<open>SearchResults.is_empty\<close>. The tests fix it on
  \<open>SearchResults([], [], [])\<close> (true), on \<open>SearchResults(['doc'], [{}], [0.1])\<close> (false)
  and on \<open>SearchResults.empty(msg)\<close> (true): a result is empty when it has no documents.
\<close>

definition is_empty :: "SearchResults \<Rightarrow> bool" where
  "is_empty results = (documents results = [])"

text \<open>
  Modelled from the spec: the catalog metadata of a course and the entries of its lesson
  list. The retrieval backend contract stores \<open>{title, course_link?, instructor?,
  lessons_json}\<close>, where \<open>lessons_json\<close> is a JSON array of
  \<open>{lesson_number, lesson_title, lesson_link?}\<close> with integer lesson numbers. A field is
  \<open>None\<close> when the dictionary has no such key.
\<close>

record course_metadata =
  title :: "string option"
  course_link :: "string option"
  instructor :: "string option"
  lessons_json :: "string option"

record lesson =
  les_number :: "int option"
  les_title :: "string option"
  les_link :: "string option"

text \<open>The exceptions the code raises or catches, each with the text \<open>str(e)\<close> gives.\<close>

datatype py_error =
    TypeError string
  | ValueError string
  | JSONDecodeError string
  | Exception string

fun err_msg :: "py_error \<Rightarrow> string" where
  "err_msg (TypeError m) = m"
| "err_msg (ValueError m) = m"
| "err_msg (JSONDecodeError m) = m"
| "err_msg (Exception m) = m"

text \<open>
  The operations of \<open>VectorStore\<close> that the tools call, taken as parameters.
  \<open>search\<close> receives \<open>query\<close>, \<open>course_name\<close> and \<open>lesson_number\<close>; it reports failures
  inside the result and does not raise. \<open>get_lesson_link\<close> and \<open>_resolve_course_name\<close>
  return a string or \<open>None\<close>. The catalog lookup \<open>course_catalog.get(ids=[title])\<close> is
  reduced to its outcomes: an exception (\<open>Inl\<close>), or the list \<open>results['metadatas']\<close>,
  empty when the result or that list is missing or empty, an entry being \<open>None\<close> when it
  is \<open>None\<close> or an empty dictionary.
\<close>

record VectorStore =
  search :: "pyval \<Rightarrow> pyval \<Rightarrow> pyval \<Rightarrow> SearchResults"
  get_lesson_link :: "string \<Rightarrow> int \<Rightarrow> string option"
  resolve_course_name :: "pyval \<Rightarrow> string option"
  course_catalog_get :: "string \<Rightarrow> py_error + course_metadata option list"


section \<open>CourseSearchTool\<close>

text \<open>A source entry: the dictionary \<open>{"text": ...}\<close> with an optional \<open>"link"\<close> key.\<close>

record source_info =
  src_text :: string
  src_link :: "string option"

record CourseSearchTool =
  store :: VectorStore
  last_sources :: "source_info list"

definition CourseSearchTool_init :: "VectorStore \<Rightarrow> CourseSearchTool" where
  "CourseSearchTool_init vector_store = \<lparr>store = vector_store, last_sources = []\<rparr>"

text \<open>The header of one hit, built in the loop body of \<open>_format_results\<close>.\<close>

definition build_header :: "chunk_meta \<Rightarrow> string" where
  "build_header meta =
     (let course_title' = (case course_title meta of None \<Rightarrow> ''unknown'' | Some t \<Rightarrow> t);
          header = ''['' @ course_title';
          header = (case lesson_number meta of
                      None \<Rightarrow> header
                    | Some n \<Rightarrow> header @ '' - Lesson '' @ str_int n)
      in header @ '']'')"

text \<open>The source entry of one hit, built in the same loop body.\<close>

definition build_source :: "VectorStore \<Rightarrow> chunk_meta \<Rightarrow> source_info" where
  "build_source st meta =
     (let course_title' = (case course_title meta of None \<Rightarrow> ''unknown'' | Some t \<Rightarrow> t);
          source_text = (case lesson_number meta of
                           None \<Rightarrow> course_title'
                         | Some n \<Rightarrow> course_title' @ '' - Lesson '' @ str_int n);
          lesson_link = (case lesson_number meta of
                           None \<Rightarrow> None
                         | Some n \<Rightarrow> if course_title' \<noteq> ''unknown''
                                     then get_lesson_link st course_title' n else None)
      in if truthy_str lesson_link
         then \<lparr>src_text = source_text, src_link = lesson_link\<rparr>
         else \<lparr>src_text = source_text, src_link = None\<rparr>)"

text \<open>
  The loop \<open>for doc, meta in zip(results.documents, results.metadata)\<close>, with the two
  lists \<open>formatted\<close> and \<open>sources\<close> it appends to.
\<close>

fun format_loop ::
  "VectorStore \<Rightarrow> (string \<times> chunk_meta) list \<Rightarrow> string list \<Rightarrow> source_info list
     \<Rightarrow> string list \<times> source_info list" where
  "format_loop st [] formatted sources = (formatted, sources)"
| "format_loop st ((doc, meta) # rest) formatted sources =
     format_loop st rest
       (formatted @ [build_header meta @ NL @ doc])
       (sources @ [build_source st meta])"

definition format_results :: "CourseSearchTool \<Rightarrow> SearchResults \<Rightarrow> string \<times> CourseSearchTool" where
  "format_results self results =
     (case format_loop (store self) (zip (documents results) (metadata results)) [] [] of
        (formatted, sources) \<Rightarrow>
          (join (NL @ NL) formatted, self\<lparr>last_sources := sources\<rparr>))"

text \<open>
  \<open>CourseSearchTool.execute\<close>: the returned text and the tool after the call. The two
  early returns leave the tool as it was.
\<close>

definition execute :: "CourseSearchTool \<Rightarrow> pyval \<Rightarrow> pyval \<Rightarrow> pyval \<Rightarrow> string \<times> CourseSearchTool" where
  "execute self query course_name lesson_number' =
     (let results = search (store self) query course_name lesson_number' in
      if truthy_str (error results) then (the (error results), self)
      else if is_empty results then
        (let filter_info = '''';
             filter_info = (if truthy course_name
                            then filter_info @ '' in course '' @ [CHR 0x27] @ fmt course_name @ [CHR 0x27]
                            else filter_info);
             filter_info = (if truthy lesson_number'
                            then filter_info @ '' in lesson '' @ fmt lesson_number'
                            else filter_info)
         in (''No relevant content found'' @ filter_info @ ''.'', self))
      else format_results self results)"


text \<open>\<open>**kwargs\<close>: the keyword arguments of a call, in the order given.\<close>

type_synonym kwargs = "(string \<times> pyval) list"

definition kw_get :: "kwargs \<Rightarrow> string \<Rightarrow> pyval" where
  "kw_get kw k = (case map_of kw k of None \<Rightarrow> PNone | Some v \<Rightarrow> v)"

text \<open>
  Calling \<open>execute(**kwargs)\<close> on a \<open>CourseSearchTool\<close>: Python raises \<open>TypeError\<close> for
  a keyword the signature does not have and for a missing \<open>query\<close>; \<open>course_name\<close> and
  \<open>lesson_number\<close> default to \<open>None\<close>. The texts of these two exceptions are shortened.
\<close>

definition CourseSearchTool_call ::
  "CourseSearchTool \<Rightarrow> kwargs \<Rightarrow> (py_error + string) \<times> CourseSearchTool" where
  "CourseSearchTool_call self kw =
     (if \<not> list_all (\<lambda>k. k \<in> set [''query'', ''course_name'', ''lesson_number'']) (map fst kw)
      then (Inl (TypeError ''execute() got an unexpected keyword argument''), self)
      else case map_of kw ''query'' of
        None \<Rightarrow> (Inl (TypeError ''execute() missing 1 required positional argument''), self)
      | Some query \<Rightarrow>
          (case execute self query (kw_get kw ''course_name'') (kw_get kw ''lesson_number'') of
             (text, self') \<Rightarrow> (Inr text, self')))"


section \<open>CourseOutlineTool\<close>

text \<open>
  \<open>json.loads\<close> belongs to the Python library and is a parameter of the functions below:
  it maps a string to the parsed lesson list or raises.
\<close>

type_synonym json_loads = "string \<Rightarrow> py_error + lesson list"

text \<open>The bullet character U+2022, in UTF-8.\<close>

abbreviation bullet :: string where
  "bullet \<equiv> [CHR 0xE2, CHR 0x80, CHR 0xA2]"

text \<open>The sort key \<open>lambda x: x.get('lesson_number', 0)\<close>.\<close>

definition sort_key_of :: "lesson \<Rightarrow> int" where
  "sort_key_of x = (case les_number x of None \<Rightarrow> 0 | Some n \<Rightarrow> n)"

text \<open>The lines one lesson adds to \<open>outline_parts\<close>.\<close>

definition lesson_lines :: "lesson \<Rightarrow> string list" where
  "lesson_lines l =
     (let lesson_num = (case les_number l of None \<Rightarrow> ''N/A'' | Some n \<Rightarrow> str_int n);
          lesson_title = (case les_title l of None \<Rightarrow> ''Untitled Lesson'' | Some t \<Rightarrow> t);
          lesson_link = (case les_link l of None \<Rightarrow> [] | Some k \<Rightarrow> k)
      in if lesson_link \<noteq> []
         then [bullet @ '' Lesson '' @ lesson_num @ '': '' @ lesson_title,
               ''  Link: '' @ lesson_link]
         else [bullet @ '' Lesson '' @ lesson_num @ '': '' @ lesson_title])"

text \<open>The loop over the sorted lessons, appending to \<open>outline_parts\<close>.\<close>

fun lessons_loop :: "string list \<Rightarrow> lesson list \<Rightarrow> string list" where
  "lessons_loop parts [] = parts"
| "lessons_loop parts (l # ls) = lessons_loop (parts @ lesson_lines l) ls"

text \<open>The title, link and instructor lines that open every outline.\<close>

definition header_parts :: "course_metadata \<Rightarrow> string list" where
  "header_parts metadata' =
     (let course_title' = (case title metadata' of None \<Rightarrow> ''Unknown Course'' | Some t \<Rightarrow> t);
          course_link' = (case course_link metadata' of None \<Rightarrow> [] | Some l \<Rightarrow> l);
          instructor' = (case instructor metadata' of None \<Rightarrow> [] | Some i \<Rightarrow> i);
          parts = [];
          parts = (if course_link' \<noteq> []
                   then parts @ [''**'' @ course_title' @ ''**'']
                          @ [''Course Link: '' @ course_link']
                   else parts @ [''**'' @ course_title' @ ''**''])
      in if instructor' \<noteq> [] then parts @ [''Instructor: '' @ instructor']
         else parts)"

text \<open>
  The list \<open>outline_parts\<close> at the end of \<open>_format_outline\<close>. Only \<open>JSONDecodeError\<close> is
  caught around \<open>json.loads\<close>; any other exception leaves the function.
\<close>

definition outline_parts :: "json_loads \<Rightarrow> course_metadata \<Rightarrow> py_error + string list" where
  "outline_parts loads metadata' =
     (let lessons_json' = (case lessons_json metadata' of None \<Rightarrow> ''[]'' | Some j \<Rightarrow> j) in
      case (case loads lessons_json' of
              Inl (JSONDecodeError m) \<Rightarrow> Inr []
            | Inl e \<Rightarrow> Inl e
            | Inr parsed \<Rightarrow> Inr parsed) of
        Inl e \<Rightarrow> Inl e
      | Inr lessons \<Rightarrow>
          Inr (if lessons \<noteq> []
               then lessons_loop
                      (header_parts metadata'
                         @ [NL @ ''**Course Outline ('' @ str_nat (length lessons) @ '' lessons):**''])
                      (sort_key sort_key_of lessons)
               else header_parts metadata' @ [NL @ ''No lesson information available.'']))"

definition format_outline :: "json_loads \<Rightarrow> course_metadata \<Rightarrow> py_error + string" where
  "format_outline loads metadata' =
     (case outline_parts loads metadata' of
        Inl e \<Rightarrow> Inl e
      | Inr parts \<Rightarrow> Inr (join NL parts))"

record CourseOutlineTool =
  outline_store :: VectorStore

definition CourseOutlineTool_init :: "VectorStore \<Rightarrow> CourseOutlineTool" where
  "CourseOutlineTool_init vector_store = \<lparr>outline_store = vector_store\<rparr>"

text \<open>
  \<open>CourseOutlineTool.execute\<close>. Every exception raised inside the \<open>try\<close> block becomes
  the text of an error message.
\<close>

definition outline_execute :: "json_loads \<Rightarrow> CourseOutlineTool \<Rightarrow> pyval \<Rightarrow> string" where
  "outline_execute loads self course_name =
     (let resolved_course_title = resolve_course_name (outline_store self) course_name in
      if \<not> truthy_str resolved_course_title
      then ''No course found matching '' @ [CHR 0x27] @ fmt course_name @ [CHR 0x27]
      else case course_catalog_get (outline_store self) (the resolved_course_title) of
        Inl e \<Rightarrow> ''Error retrieving course outline: '' @ err_msg e
      | Inr [] \<Rightarrow>
          ''No metadata found for course '' @ [CHR 0x27] @ the resolved_course_title @ [CHR 0x27]
      | Inr (None # rest) \<Rightarrow>
          ''No metadata found for course '' @ [CHR 0x27] @ the resolved_course_title @ [CHR 0x27]
      | Inr (Some metadata' # rest) \<Rightarrow>
          (case format_outline loads metadata' of
             Inl e \<Rightarrow> ''Error retrieving course outline: '' @ err_msg e
           | Inr text \<Rightarrow> text))"

text \<open>Calling \<open>execute(**kwargs)\<close> on a \<open>CourseOutlineTool\<close>: \<open>course_name\<close> is required.\<close>

definition CourseOutlineTool_call ::
  "json_loads \<Rightarrow> CourseOutlineTool \<Rightarrow> kwargs \<Rightarrow> py_error + string" where
  "CourseOutlineTool_call loads self kw =
     (if \<not> list_all (\<lambda>k. k = ''course_name'') (map fst kw)
      then Inl (TypeError ''execute() got an unexpected keyword argument'')
      else case map_of kw ''course_name'' of
        None \<Rightarrow> Inl (TypeError ''execute() missing 1 required positional argument'')
      | Some course_name \<Rightarrow> Inr (outline_execute loads self course_name))"


section \<open>The Tool interface and ToolManager\<close>

text \<open>
  A tool definition: the dictionary \<open>get_tool_definition\<close> returns. \<open>name\<close> is \<open>None\<close>
  when the dictionary has no \<open>"name"\<close> key. Of \<open>input_schema\<close>, the property names with
  their types and the list of required properties are kept.
\<close>

record tool_definition =
  name :: "string option"
  description :: "string option"
  properties :: "(string \<times> string) list"
  required :: "string list"

text \<open>
  Any other implementation of the abstract class \<open>Tool\<close> (the tests register mock
  objects): its definition, its \<open>execute\<close>, and its \<open>last_sources\<close> attribute, \<open>None\<close>
  when the object has no such attribute. \<open>execute\<close> may rebind the attribute.
\<close>

record other_tool =
  other_definition :: tool_definition
  other_execute ::
    "kwargs \<Rightarrow> source_info list option \<Rightarrow> (py_error + string) \<times> source_info list option"
  other_last_sources :: "source_info list option"

text \<open>The objects that implement \<open>Tool\<close>; a method call dispatches on the class.\<close>

datatype tool =
    SearchTool CourseSearchTool
  | OutlineTool CourseOutlineTool
  | OtherTool other_tool

fun get_tool_definition :: "tool \<Rightarrow> tool_definition" where
  "get_tool_definition (SearchTool t) =
     \<lparr>name = Some ''search_course_content'',
      description = Some ''Search course materials with smart course name matching and lesson filtering'',
      properties = [(''query'', ''string''), (''course_name'', ''string''),
                    (''lesson_number'', ''integer'')],
      required = [''query'']\<rparr>"
| "get_tool_definition (OutlineTool t) =
     \<lparr>name = Some ''get_course_outline'',
      description = Some ''Get complete course outline including title, link, and all lessons with their titles and links'',
      properties = [(''course_name'', ''string'')],
      required = [''course_name'']\<rparr>"
| "get_tool_definition (OtherTool t) = other_definition t"

text \<open>\<open>tool.execute(**kwargs)\<close>: the result or the exception, and the tool afterwards.\<close>

fun tool_execute :: "json_loads \<Rightarrow> tool \<Rightarrow> kwargs \<Rightarrow> (py_error + string) \<times> tool" where
  "tool_execute loads (SearchTool t) kw =
     (case CourseSearchTool_call t kw of (r, t') \<Rightarrow> (r, SearchTool t'))"
| "tool_execute loads (OutlineTool t) kw = (CourseOutlineTool_call loads t kw, OutlineTool t)"
| "tool_execute loads (OtherTool t) kw =
     (case other_execute t kw (other_last_sources t) of
        (r, ls) \<Rightarrow> (r, OtherTool (t\<lparr>other_last_sources := ls\<rparr>)))"

text \<open>
  The attribute \<open>last_sources\<close> of a tool: \<open>None\<close> when \<open>hasattr(tool, 'last_sources')\<close>
  is false.
\<close>

fun tool_last_sources :: "tool \<Rightarrow> source_info list option" where
  "tool_last_sources (SearchTool t) = Some (last_sources t)"
| "tool_last_sources (OutlineTool t) = None"
| "tool_last_sources (OtherTool t) = other_last_sources t"

text \<open>
  \<open>ToolManager\<close>: the dictionary \<open>self.tools\<close>, as the list of its items in insertion
  order.
\<close>

record ToolManager =
  tools :: "(string \<times> tool) list"

definition ToolManager_init :: ToolManager where
  "ToolManager_init = \<lparr>tools = []\<rparr>"

text \<open>
  \<open>d[k] = v\<close> on a dictionary: an existing key keeps its place and gets the new value,
  a new key goes to the end.
\<close>

fun dict_set :: "(string \<times> 'v) list \<Rightarrow> string \<Rightarrow> 'v \<Rightarrow> (string \<times> 'v) list" where
  "dict_set [] k v = [(k, v)]"
| "dict_set ((k', v') # d) k v = (if k' = k then (k, v) # d else (k', v') # dict_set d k v)"

definition register_tool :: "ToolManager \<Rightarrow> tool \<Rightarrow> py_error + ToolManager" where
  "register_tool self tool =
     (let tool_def = get_tool_definition tool;
          tool_name = name tool_def
      in if \<not> truthy_str tool_name
         then Inl (ValueError ''Tool must have a 'name' in its definition'')
         else Inr (self\<lparr>tools := dict_set (tools self) (the tool_name) tool\<rparr>))"

definition get_tool_definitions :: "ToolManager \<Rightarrow> tool_definition list" where
  "get_tool_definitions self = map (\<lambda>(k, tool). get_tool_definition tool) (tools self)"

text \<open>
  \<open>execute_tool(self, tool_name, **kwargs)\<close>. A keyword named \<open>tool_name\<close> or \<open>self\<close>
  collides with a parameter of the method: Python raises \<open>TypeError\<close> at the call, before
  the body runs. The text of that exception is shortened.
\<close>

definition execute_tool ::
  "json_loads \<Rightarrow> ToolManager \<Rightarrow> string \<Rightarrow> kwargs \<Rightarrow> (py_error + string) \<times> ToolManager" where
  "execute_tool loads self tool_name kw =
     (if ''tool_name'' \<in> set (map fst kw) \<or> ''self'' \<in> set (map fst kw)
      then (Inl (TypeError ''execute_tool() got multiple values for argument''), self)
      else case map_of (tools self) tool_name of
        None \<Rightarrow> (Inr (''Tool '' @ [CHR 0x27] @ tool_name @ [CHR 0x27] @ '' not found''), self)
      | Some tool \<Rightarrow>
          (case tool_execute loads tool kw of
             (r, tool') \<Rightarrow> (r, self\<lparr>tools := dict_set (tools self) tool_name tool'\<rparr>)))"

text \<open>The loop of \<open>get_last_sources\<close> over \<open>self.tools.values()\<close>.\<close>

fun first_sources :: "tool list \<Rightarrow> source_info list" where
  "first_sources [] = []"
| "first_sources (tool # rest) =
     (case tool_last_sources tool of
        None \<Rightarrow> first_sources rest
      | Some ls \<Rightarrow> if ls \<noteq> [] then ls else first_sources rest)"

definition get_last_sources :: "ToolManager \<Rightarrow> source_info list" where
  "get_last_sources self = first_sources (map snd (tools self))"

text \<open>One step of the loop of \<open>reset_sources\<close>.\<close>

fun reset_tool :: "tool \<Rightarrow> tool" where
  "reset_tool (SearchTool t) = SearchTool (t\<lparr>last_sources := []\<rparr>)"
| "reset_tool (OutlineTool t) = OutlineTool t"
| "reset_tool (OtherTool t) =
     (case other_last_sources t of
        None \<Rightarrow> OtherTool t
      | Some ls \<Rightarrow> OtherTool (t\<lparr>other_last_sources := Some []\<rparr>))"

definition reset_sources :: "ToolManager \<Rightarrow> ToolManager" where
  "reset_sources self = self\<lparr>tools := map (\<lambda>(k, tool). (k, reset_tool tool)) (tools self)\<rparr>"

text \<open>
  Registering a list of tools one after the other, as an application does when it starts;
  the first exception ends it.
\<close>

fun register_all :: "ToolManager \<Rightarrow> tool list \<Rightarrow> py_error + ToolManager" where
  "register_all self [] = Inr self"
| "register_all self (tool # rest) =
     (case register_tool self tool of
        Inl e \<Rightarrow> Inl e
      | Inr self' \<Rightarrow> register_all self' rest)"


section \<open>Example data\<close>

text \<open>
  A store in the manner of the test fixtures: the query \<open>"mcp"\<close> finds the two chunks of
  \<open>mock_search_results\<close>, \<open>"fail"\<close> gives the error result of \<open>error_search_results\<close>,
  and every other query the empty result of \<open>empty_search_results\<close>.
\<close>

definition example_store :: VectorStore where
  "example_store =
     \<lparr>search = (\<lambda>query course_name lesson_number'.
         if query = PStr ''mcp'' then
           \<lparr>documents = [''This is sample course content about MCP.'',
                         ''Another piece of content about web development.''],
            metadata = [\<lparr>course_title = Some ''Intro to MCP'', lesson_number = Some 1\<rparr>,
                        \<lparr>course_title = Some ''Web Dev'', lesson_number = Some 2\<rparr>],
            error = None\<rparr>
         else if query = PStr ''fail'' then
           \<lparr>documents = [], metadata = [], error = Some ''Database connection failed''\<rparr>
         else \<lparr>documents = [], metadata = [], error = None\<rparr>),
      get_lesson_link = (\<lambda>course lesson.
         if course = ''Intro to MCP'' \<and> lesson = 1 then Some ''https://example.com/lesson1''
         else None),
      resolve_course_name = (\<lambda>course_name. None),
      course_catalog_get = (\<lambda>course. Inr [])\<rparr>"

text \<open>A search tool that has answered the query \<open>"mcp"\<close> once.\<close>

definition used_search_tool :: CourseSearchTool where
  "used_search_tool =
     snd (execute (CourseSearchTool_init example_store) (PStr ''mcp'') PNone PNone)"

text \<open>A parser that knows two inputs: the empty array and one array of three lessons.\<close>

definition example_loads :: json_loads where
  "example_loads s =
     (if s = ''[]'' then Inr []
      else if s = ''three'' then
        Inr [\<lparr>les_number = Some 2, les_title = Some ''Setting up MCP'',
               les_link = Some ''https://example.com/lesson2''\<rparr>,
             \<lparr>les_number = Some 1, les_title = Some ''What is MCP?'', les_link = None\<rparr>,
             \<lparr>les_number = None, les_title = None, les_link = Some []\<rparr>]
      else Inl (JSONDecodeError ''Expecting value''))"

text \<open>The catalog metadata of a course, with a given \<open>lessons_json\<close> string.\<close>

definition example_course :: "string \<Rightarrow> course_metadata" where
  "example_course j =
     \<lparr>title = Some ''Intro to MCP'', course_link = Some ''https://example.com/mcp-intro'',
      instructor = Some ''Claude AI'', lessons_json = Some j\<rparr>"

text \<open>A tool whose definition has no name, as the mock of \<open>test_register_tool_without_name\<close>.\<close>

definition bad_tool :: tool where
  "bad_tool =
     OtherTool \<lparr>other_definition =
                  \<lparr>name = None, description = Some ''Bad tool'', properties = [], required = []\<rparr>,
                other_execute = (\<lambda>kw ls. (Inr [], ls)),
                other_last_sources = None\<rparr>"


section \<open>Properties of CourseSearchTool\<close>

text \<open>Decimal strings of the small numbers the examples use.\<close>

lemma str_int_small:
  "str_int 0 = ''0''" "str_int 1 = ''1''" "str_int 2 = ''2''" "str_int 5 = ''5''"
  by (simp_all add: str_int_def str_nat.simps digit_def)

text \<open>The loop of \<open>_format_results\<close> appends one rendered hit and one source per hit.\<close>

lemma format_loop_eq:
  "format_loop st hits formatted sources =
     (formatted @ map (\<lambda>(doc, meta). build_header meta @ NL @ doc) hits,
      sources @ map (\<lambda>(doc, meta). build_source st meta) hits)"
  by (induction hits arbitrary: formatted sources) auto

text \<open>The three paths of \<open>execute\<close>.\<close>

lemma execute_error:
  assumes "error (search (store self) query cn ln) = Some e" and "e \<noteq> []"
  shows "execute self query cn ln = (e, self)"
  using assms by (simp add: execute_def Let_def)

lemma execute_empty:
  assumes "\<not> truthy_str (error (search (store self) query cn ln))"
    and "is_empty (search (store self) query cn ln)"
  shows "execute self query cn ln =
     (''No relevant content found''
        @ (if truthy cn then '' in course '' @ [CHR 0x27] @ fmt cn @ [CHR 0x27] else [])
        @ (if truthy ln then '' in lesson '' @ fmt ln else [])
        @ ''.'', self)"
  using assms by (simp add: execute_def Let_def)

lemma execute_hits:
  assumes "\<not> truthy_str (error (search (store self) query cn ln))"
    and "\<not> is_empty (search (store self) query cn ln)"
  shows "execute self query cn ln =
     (join (NL @ NL)
        (map (\<lambda>(doc, meta). build_header meta @ NL @ doc)
           (zip (documents (search (store self) query cn ln))
                (metadata (search (store self) query cn ln)))),
      self\<lparr>last_sources :=
        map (\<lambda>(doc, meta). build_source (store self) meta)
           (zip (documents (search (store self) query cn ln))
                (metadata (search (store self) query cn ln)))\<rparr>)"
  using assms by (simp add: execute_def Let_def format_results_def format_loop_eq)

text \<open>The example store, evaluated.\<close>

lemma example_search:
  "search example_store (PStr ''mcp'') cn ln =
     \<lparr>documents = [''This is sample course content about MCP.'',
                   ''Another piece of content about web development.''],
      metadata = [\<lparr>course_title = Some ''Intro to MCP'', lesson_number = Some 1\<rparr>,
                  \<lparr>course_title = Some ''Web Dev'', lesson_number = Some 2\<rparr>],
      error = None\<rparr>"
  "search example_store (PStr ''fail'') cn ln =
     \<lparr>documents = [], metadata = [], error = Some ''Database connection failed''\<rparr>"
  "search example_store (PStr ''x'') cn ln =
     \<lparr>documents = [], metadata = [], error = None\<rparr>"
  by (simp_all add: example_store_def)

lemma example_link:
  "get_lesson_link example_store ''Intro to MCP'' 1 = Some ''https://example.com/lesson1''"
  "get_lesson_link example_store ''Web Dev'' 2 = None"
  by (simp_all add: example_store_def)

lemma used_search_tool_eq:
  "used_search_tool =
     \<lparr>store = example_store,
      last_sources =
        [\<lparr>src_text = ''Intro to MCP - Lesson 1'', src_link = Some ''https://example.com/lesson1''\<rparr>,
         \<lparr>src_text = ''Web Dev - Lesson 2'', src_link = None\<rparr>]\<rparr>"
  unfolding used_search_tool_def
  by (subst execute_hits)
     (simp_all add: CourseSearchTool_init_def example_search is_empty_def build_source_def
        example_link str_int_small)

text \<open>
  C1. The claim: every call of \<open>execute\<close> replaces \<open>last_sources\<close> by the citations of
  that call's hits, also when the search result carries an error or is empty. On the code
  this fails: both early returns come before \<open>_format_results\<close> assigns
  \<open>last_sources\<close>. After a search that found two chunks, an empty search and a failed
  search each leave the tool unchanged, with the two source entries of the earlier call.
\<close>

theorem C1_sources_kept_by_empty_and_failed_search:
  "last_sources used_search_tool =
     [\<lparr>src_text = ''Intro to MCP - Lesson 1'', src_link = Some ''https://example.com/lesson1''\<rparr>,
      \<lparr>src_text = ''Web Dev - Lesson 2'', src_link = None\<rparr>]
   \<and> execute used_search_tool (PStr ''x'') PNone PNone
       = (''No relevant content found.'', used_search_tool)
   \<and> execute used_search_tool (PStr ''fail'') PNone PNone
       = (''Database connection failed'', used_search_tool)"
proof -
  have st: "store used_search_tool = example_store"
    by (simp add: used_search_tool_eq)
  have a: "execute used_search_tool (PStr ''x'') PNone PNone
       = (''No relevant content found.'', used_search_tool)"
    by (subst execute_empty) (simp_all add: st example_search is_empty_def)
  have b: "execute used_search_tool (PStr ''fail'') PNone PNone
       = (''Database connection failed'', used_search_tool)"
    by (rule execute_error) (simp_all add: st example_search)
  show ?thesis using a b by (simp add: used_search_tool_eq)
qed


text \<open>
  Where each of the two arguments is absent or truthy, the message for an empty,
  error-free result names the supplied filters: \<open>"No relevant content found"\<close>, then
  \<open>" in course '<name>'"\<close> when a course name was supplied, then \<open>" in lesson <n>"\<close> when a
  lesson number was supplied, then a period.
\<close>

lemma empty_result_message_names_filters:
  assumes "is_empty (search (store self) query course_name lesson_number')"
    and "\<not> truthy_str (error (search (store self) query course_name lesson_number'))"
    and "course_name = PNone \<or> truthy course_name"
    and "lesson_number' = PNone \<or> truthy lesson_number'"
  shows "fst (execute self query course_name lesson_number') =
     ''No relevant content found''
       @ (if course_name = PNone then []
          else '' in course '' @ [CHR 0x27] @ fmt course_name @ [CHR 0x27])
       @ (if lesson_number' = PNone then [] else '' in lesson '' @ fmt lesson_number')
       @ ''.''"
  using assms by (auto simp add: execute_empty)

text \<open>
  Scenario B: course name \<open>"MCP"\<close> and lesson number 5 on an empty result.
\<close>

lemma scenario_B_message:
  "fst (execute (CourseSearchTool_init example_store) (PStr ''x'') (PStr ''MCP'') (PInt 5))
     = ''No relevant content found in course 'MCP' in lesson 5.''"
proof -
  have e: "is_empty (search (store (CourseSearchTool_init example_store))
                       (PStr ''x'') (PStr ''MCP'') (PInt 5))"
    by (simp add: CourseSearchTool_init_def example_search is_empty_def)
  have n: "\<not> truthy_str (error (search (store (CourseSearchTool_init example_store))
                               (PStr ''x'') (PStr ''MCP'') (PInt 5)))"
    by (simp add: CourseSearchTool_init_def example_search)
  have c: "PStr ''MCP'' = PNone \<or> truthy (PStr ''MCP'')" by simp
  have l: "PInt 5 = PNone \<or> truthy (PInt 5)" by simp
  from empty_result_message_names_filters [OF e n c l] show ?thesis
    by (simp add: str_int_small)
qed

text \<open>
  C2. The claim: on an empty, error-free result the message carries \<open>" in lesson <n>"\<close>
  when a lesson number was supplied. On the code this fails for the lesson number 0: the
  test \<open>if lesson_number\<close> takes the supplied 0 for the absent \<open>None\<close>, and the message is
  \<open>"No relevant content found."\<close> without \<open>" in lesson 0"\<close>. The path that renders hits
  tests \<open>lesson_num is not None\<close> and does name lesson 0 in its header.
\<close>

theorem C2_lesson_zero_gets_no_suffix:
  "is_empty (search (store (CourseSearchTool_init example_store)) (PStr ''x'') PNone (PInt 0))
   \<and> error (search (store (CourseSearchTool_init example_store)) (PStr ''x'') PNone (PInt 0)) = None
   \<and> fst (execute (CourseSearchTool_init example_store) (PStr ''x'') PNone (PInt 0))
       = ''No relevant content found.''
   \<and> fst (execute (CourseSearchTool_init example_store) (PStr ''x'') PNone (PInt 0))
       \<noteq> ''No relevant content found in lesson 0.''
   \<and> build_header \<lparr>course_title = Some ''Intro to MCP'', lesson_number = Some 0\<rparr>
       = ''[Intro to MCP - Lesson 0]''"
proof -
  have st: "store (CourseSearchTool_init example_store) = example_store"
    by (simp add: CourseSearchTool_init_def)
  have "execute (CourseSearchTool_init example_store) (PStr ''x'') PNone (PInt 0)
          = (''No relevant content found.'', CourseSearchTool_init example_store)"
    by (subst execute_empty) (simp_all add: st example_search is_empty_def)
  then show ?thesis
    by (simp add: st example_search is_empty_def build_header_def str_int_small)
qed

text \<open>
  C4. For every search result that carries an error string, \<open>execute\<close> returns exactly
  that string and leaves the tool as it was: it raises nothing, renders no hit and
  assigns no sources, whatever documents and metadata the result holds. A result carries
  an error when \<open>results.error\<close> holds a non-empty string, which is what the guard
  \<open>if results.error\<close> tests and what \<open>SearchResults.empty(msg)\<close> is given.
\<close>

theorem C4_error_text_returned:
  assumes "error (search (store self) query course_name lesson_number') = Some e"
    and "e \<noteq> []"
  shows "execute self query course_name lesson_number' = (e, self)"
  using assms by (rule execute_error)

text \<open>The error result of the test fixture, on a tool that holds earlier sources.\<close>

theorem C4_error_text_returned_witness:
  "error (search (store used_search_tool) (PStr ''fail'') PNone PNone)
     = Some ''Database connection failed''
   \<and> ''Database connection failed'' \<noteq> []
   \<and> execute used_search_tool (PStr ''fail'') PNone PNone
       = (''Database connection failed'', used_search_tool)"
proof -
  have e: "error (search (store used_search_tool) (PStr ''fail'') PNone PNone)
             = Some ''Database connection failed''"
    by (simp add: used_search_tool_eq example_search)
  have n: "''Database connection failed'' \<noteq> []" by simp
  from C4_error_text_returned [OF e n] e show ?thesis by simp
qed

text \<open>
  C5. For every non-empty, error-free search result, with the hits being the documents
  paired with their metadata: \<open>execute\<close> returns the hits rendered as
  \<open>"[<course_title>"\<close>, \<open>" - Lesson <n>"\<close> when the hit has a lesson number, \<open>"]"\<close>, a
  newline and the document text, joined by a blank line; and it stores one source entry
  per hit, in the order of the hits, labelled with the course title and the same lesson
  suffix. A hit without a course title is rendered with the title \<open>unknown\<close>.
\<close>

theorem C5_hits_rendered_and_cited_in_order:
  assumes "results = search (store self) query course_name lesson_number'"
    and "hits = zip (documents results) (metadata results)"
    and "\<not> truthy_str (error results)"
    and "\<not> is_empty results"
  shows "fst (execute self query course_name lesson_number') =
           join (NL @ NL)
             (map (\<lambda>(doc, meta).
                     ''['' @ (case course_title meta of None \<Rightarrow> ''unknown'' | Some t \<Rightarrow> t)
                       @ (case lesson_number meta of
                            None \<Rightarrow> []
                          | Some n \<Rightarrow> '' - Lesson '' @ str_int n)
                       @ '']'' @ NL @ doc) hits)
         \<and> snd (execute self query course_name lesson_number') =
             self\<lparr>last_sources := map (\<lambda>(doc, meta). build_source (store self) meta) hits\<rparr>
         \<and> length (last_sources (snd (execute self query course_name lesson_number')))
             = length hits
         \<and> map src_text (last_sources (snd (execute self query course_name lesson_number'))) =
             map (\<lambda>(doc, meta).
                    (case course_title meta of None \<Rightarrow> ''unknown'' | Some t \<Rightarrow> t)
                      @ (case lesson_number meta of
                           None \<Rightarrow> []
                         | Some n \<Rightarrow> '' - Lesson '' @ str_int n)) hits"
proof -
  have hdr: "build_header meta =
       ''['' @ (case course_title meta of None \<Rightarrow> ''unknown'' | Some t \<Rightarrow> t)
         @ (case lesson_number meta of None \<Rightarrow> [] | Some n \<Rightarrow> '' - Lesson '' @ str_int n)
         @ '']''" for meta
    by (simp add: build_header_def split: option.splits)
  have lab: "src_text (build_source st meta) =
       (case course_title meta of None \<Rightarrow> ''unknown'' | Some t \<Rightarrow> t)
         @ (case lesson_number meta of None \<Rightarrow> [] | Some n \<Rightarrow> '' - Lesson '' @ str_int n)"
    for st meta
    by (simp add: build_source_def Let_def split: option.splits)
  have ex: "execute self query course_name lesson_number' =
     (join (NL @ NL) (map (\<lambda>(doc, meta). build_header meta @ NL @ doc) hits),
      self\<lparr>last_sources := map (\<lambda>(doc, meta). build_source (store self) meta) hits\<rparr>)"
    using assms by (simp add: execute_hits)
  show ?thesis
    by (auto simp add: ex hdr lab)
qed

text \<open>
  Scenario C: the two hits \<open>{course_title: "Intro to MCP", lesson_number: 1}\<close> and
  \<open>{course_title: "Web Dev", lesson_number: 2}\<close>.
\<close>

theorem C5_hits_rendered_and_cited_in_order_witness:
  "\<not> truthy_str (error (search (store (CourseSearchTool_init example_store)) (PStr ''mcp'') PNone PNone))
   \<and> \<not> is_empty (search (store (CourseSearchTool_init example_store)) (PStr ''mcp'') PNone PNone)
   \<and> fst (execute (CourseSearchTool_init example_store) (PStr ''mcp'') PNone PNone) =
       ''[Intro to MCP - Lesson 1]\<newline>This is sample course content about MCP.\<newline>\<newline>[Web Dev - Lesson 2]\<newline>Another piece of content about web development.''
   \<and> map src_text (last_sources (snd (execute (CourseSearchTool_init example_store)
                                          (PStr ''mcp'') PNone PNone))) =
       [''Intro to MCP - Lesson 1'', ''Web Dev - Lesson 2'']"
proof -
  have st: "store (CourseSearchTool_init example_store) = example_store"
    by (simp add: CourseSearchTool_init_def)
  have n: "\<not> truthy_str (error (search (store (CourseSearchTool_init example_store))
                               (PStr ''mcp'') PNone PNone))"
    by (simp add: st example_search)
  have e: "\<not> is_empty (search (store (CourseSearchTool_init example_store))
                         (PStr ''mcp'') PNone PNone)"
    by (simp add: st example_search is_empty_def)
  from C5_hits_rendered_and_cited_in_order [OF refl refl n e] n e show ?thesis
    by (simp add: st example_search str_int_small build_source_def example_link)
qed

text \<open>
  C10, amended. On an empty, error-free search result \<open>execute\<close> appends a filter suffix
  exactly when the argument is truthy. A lesson number 0 adds no lesson suffix and leaves
  the course suffix as the course name decides; an empty course name adds no course
  suffix and leaves the lesson suffix as the lesson number decides. When one of the two
  is given so and the other argument is falsy as well (absent, 0 or empty), the message
  is exactly \<open>"No relevant content found."\<close>.
\<close>

theorem C10_falsy_filter_adds_no_suffix:
  assumes "is_empty (search (store self) query course_name lesson_number')"
    and "\<not> truthy_str (error (search (store self) query course_name lesson_number'))"
  shows "fst (execute self query course_name lesson_number') =
           ''No relevant content found''
             @ (if truthy course_name
                then '' in course '' @ [CHR 0x27] @ fmt course_name @ [CHR 0x27] else [])
             @ (if truthy lesson_number' then '' in lesson '' @ fmt lesson_number' else [])
             @ ''.''
         \<and> (lesson_number' = PInt 0 \<longrightarrow>
              fst (execute self query course_name lesson_number') =
                ''No relevant content found''
                  @ (if truthy course_name
                     then '' in course '' @ [CHR 0x27] @ fmt course_name @ [CHR 0x27] else [])
                  @ ''.'')
         \<and> (course_name = PStr [] \<longrightarrow>
              fst (execute self query course_name lesson_number') =
                ''No relevant content found''
                  @ (if truthy lesson_number' then '' in lesson '' @ fmt lesson_number' else [])
                  @ ''.'')
         \<and> ((lesson_number' = PInt 0 \<or> course_name = PStr [])
              \<and> \<not> truthy course_name \<and> \<not> truthy lesson_number' \<longrightarrow>
              fst (execute self query course_name lesson_number') = ''No relevant content found.'')"
proof -
  have ex: "fst (execute self query course_name lesson_number') =
           ''No relevant content found''
             @ (if truthy course_name
                then '' in course '' @ [CHR 0x27] @ fmt course_name @ [CHR 0x27] else [])
             @ (if truthy lesson_number' then '' in lesson '' @ fmt lesson_number' else [])
             @ ''.''"
    using assms by (simp add: execute_empty)
  show ?thesis unfolding ex by auto
qed

text \<open>Lesson number 0 together with the empty course name.\<close>

theorem C10_falsy_filter_adds_no_suffix_witness:
  "is_empty (search (store used_search_tool) (PStr ''x'') (PStr []) (PInt 0))
   \<and> \<not> truthy_str (error (search (store used_search_tool) (PStr ''x'') (PStr []) (PInt 0)))
   \<and> fst (execute used_search_tool (PStr ''x'') (PStr []) (PInt 0)) = ''No relevant content found.''"
proof -
  have e: "is_empty (search (store used_search_tool) (PStr ''x'') (PStr []) (PInt 0))"
    by (simp add: used_search_tool_eq example_search is_empty_def)
  have n: "\<not> truthy_str (error (search (store used_search_tool) (PStr ''x'') (PStr []) (PInt 0)))"
    by (simp add: used_search_tool_eq example_search)
  from C10_falsy_filter_adds_no_suffix [OF e n] e n show ?thesis by simp
qed


text \<open>
  C10 as stated fails for the lesson number 0 together with a course name: the message is
  not exactly \<open>"No relevant content found."\<close>, it carries the course suffix.
\<close>

theorem C10_course_name_with_lesson_zero_counterexample:
  "is_empty (search (store (CourseSearchTool_init example_store)) (PStr ''x'') (PStr ''MCP'') (PInt 0))
   \<and> error (search (store (CourseSearchTool_init example_store))
               (PStr ''x'') (PStr ''MCP'') (PInt 0)) = None
   \<and> fst (execute (CourseSearchTool_init example_store) (PStr ''x'') (PStr ''MCP'') (PInt 0))
       = ''No relevant content found in course 'MCP'.''
   \<and> fst (execute (CourseSearchTool_init example_store) (PStr ''x'') (PStr ''MCP'') (PInt 0))
       \<noteq> ''No relevant content found.''"
proof -
  have st: "store (CourseSearchTool_init example_store) = example_store"
    by (simp add: CourseSearchTool_init_def)
  have "execute (CourseSearchTool_init example_store) (PStr ''x'') (PStr ''MCP'') (PInt 0)
          = (''No relevant content found in course 'MCP'.'', CourseSearchTool_init example_store)"
    by (subst execute_empty) (simp_all add: st example_search is_empty_def)
  then show ?thesis
    by (simp add: st example_search is_empty_def)
qed


section \<open>Properties of ToolManager\<close>

text \<open>The dictionary assignment, seen as a map, as a list of keys and as a list of values.\<close>

lemma map_of_dict_set: "map_of (dict_set d k v) = (map_of d)(k \<mapsto> v)"
  by (induction d) (auto simp add: fun_eq_iff)

lemma keys_dict_set:
  "map fst (dict_set d k v) = (if k \<in> set (map fst d) then map fst d else map fst d @ [k])"
  by (induction d) (force split: if_splits)+

lemma values_dict_set: "set (map snd (dict_set d k v)) \<subseteq> insert v (set (map snd d))"
  by (induction d) (force split: if_splits)+

text \<open>\<open>get_last_sources\<close> is empty exactly when no tool holds a non-empty source list.\<close>

lemma first_sources_empty_iff:
  "first_sources ts = [] \<longleftrightarrow>
     list_all (\<lambda>t. tool_last_sources t = None \<or> tool_last_sources t = Some []) ts"
  by (induction ts) (auto split: option.splits)

lemma tool_last_sources_reset:
  "tool_last_sources (reset_tool t) = None \<or> tool_last_sources (reset_tool t) = Some []"
  by (cases t) (auto split: option.splits)

lemma get_last_sources_reset: "get_last_sources (reset_sources self) = []"
  by (simp add: get_last_sources_def reset_sources_def first_sources_empty_iff list_all_iff
      tool_last_sources_reset split_def)

text \<open>The two outcomes of \<open>register_tool\<close>.\<close>

lemma register_tool_named:
  assumes "name (get_tool_definition tool) = Some n" and "n \<noteq> []"
  shows "register_tool self tool = Inr (self\<lparr>tools := dict_set (tools self) n tool\<rparr>)"
  using assms by (simp add: register_tool_def Let_def)

lemma register_tool_nameless:
  assumes "name (get_tool_definition tool) = None \<or> name (get_tool_definition tool) = Some []"
  shows "register_tool self tool = Inl (ValueError ''Tool must have a 'name' in its definition'')"
  using assms by (auto simp add: register_tool_def Let_def)

text \<open>Registering tools without sources keeps the manager without sources.\<close>

lemma register_keeps_no_sources:
  assumes "get_last_sources self = []"
    and "tool_last_sources tool = None \<or> tool_last_sources tool = Some []"
    and "register_tool self tool = Inr self'"
  shows "get_last_sources self' = []"
proof -
  from assms(3) obtain n where s': "self' = self\<lparr>tools := dict_set (tools self) n tool\<rparr>"
    by (auto simp add: register_tool_def Let_def split: if_splits)
  have "set (map snd (tools self')) \<subseteq> insert tool (set (map snd (tools self)))"
    unfolding s' using values_dict_set [of "tools self" n tool] by simp
  with assms(1,2) show ?thesis
    unfolding get_last_sources_def first_sources_empty_iff list_all_iff by blast
qed

lemma register_all_fresh:
  assumes "get_last_sources self = []"
    and "list_all (\<lambda>t. (\<exists>st. t = SearchTool (CourseSearchTool_init st))
                      \<or> (\<exists>st. t = OutlineTool (CourseOutlineTool_init st))) ts"
  shows "\<exists>self'. register_all self ts = Inr self' \<and> get_last_sources self' = []"
  using assms
proof (induction ts arbitrary: self)
  case Nil
  then show ?case by simp
next
  case (Cons t ts)
  from Cons.prems(2) have ls: "tool_last_sources t = None \<or> tool_last_sources t = Some []"
    by (auto simp add: CourseSearchTool_init_def)
  from Cons.prems(2) obtain n where n: "name (get_tool_definition t) = Some n" "n \<noteq> []"
    by auto
  have r: "register_tool self t = Inr (self\<lparr>tools := dict_set (tools self) n t\<rparr>)"
    using n by (rule register_tool_named)
  have "get_last_sources (self\<lparr>tools := dict_set (tools self) n t\<rparr>) = []"
    using Cons.prems(1) ls r by (rule register_keeps_no_sources)
  moreover from Cons.prems(2) have "list_all (\<lambda>t. (\<exists>st. t = SearchTool (CourseSearchTool_init st))
                      \<or> (\<exists>st. t = OutlineTool (CourseOutlineTool_init st))) ts"
    by simp
  ultimately show ?case
    using Cons.IH r by simp
qed


text \<open>
  C3, amended. \<open>register_tool\<close> raises \<open>ValueError\<close> and registers nothing whenever the
  tool's definition has no name or an empty name. For every other tool it succeeds, also
  when a tool of that name is registered already: the tool is stored under its name, where
  it replaces the tool registered before, and the other entries and the order of the names
  stay as they were.
\<close>

theorem C3_register_tool_nameless_or_named:
  "(name (get_tool_definition tool) = None \<or> name (get_tool_definition tool) = Some [] \<longrightarrow>
      register_tool self tool = Inl (ValueError ''Tool must have a 'name' in its definition''))
   \<and> (name (get_tool_definition tool) = Some n \<and> n \<noteq> [] \<longrightarrow>
        register_tool self tool = Inr (self\<lparr>tools := dict_set (tools self) n tool\<rparr>)
        \<and> map_of (dict_set (tools self) n tool) = (map_of (tools self))(n \<mapsto> tool)
        \<and> map fst (dict_set (tools self) n tool) =
            (if n \<in> set (map fst (tools self)) then map fst (tools self)
             else map fst (tools self) @ [n]))"
  using register_tool_nameless [of tool self] register_tool_named [of tool n self]
    map_of_dict_set [of "tools self" n tool] keys_dict_set [of "tools self" n tool]
  by blast

text \<open>
  The nameless mock of the tests is refused; a search tool registered over another search
  tool replaces it.
\<close>

theorem C3_register_tool_nameless_or_named_witness:
  "(name (get_tool_definition bad_tool) = None \<or> name (get_tool_definition bad_tool) = Some [])
   \<and> register_tool ToolManager_init bad_tool
       = Inl (ValueError ''Tool must have a 'name' in its definition'')
   \<and> name (get_tool_definition (SearchTool (CourseSearchTool_init example_store)))
       = Some ''search_course_content''
   \<and> ''search_course_content'' \<noteq> []
   \<and> register_tool \<lparr>tools = [(''search_course_content'', SearchTool used_search_tool)]\<rparr>
        (SearchTool (CourseSearchTool_init example_store))
       = Inr \<lparr>tools = [(''search_course_content'', SearchTool (CourseSearchTool_init example_store))]\<rparr>"
proof -
  have a: "name (get_tool_definition bad_tool) = None \<or> name (get_tool_definition bad_tool) = Some []"
    by (simp add: bad_tool_def)
  have b: "name (get_tool_definition (SearchTool (CourseSearchTool_init example_store)))
             = Some ''search_course_content'' \<and> ''search_course_content'' \<noteq> []"
    by simp
  from a C3_register_tool_nameless_or_named [of bad_tool ToolManager_init]
  have c: "register_tool ToolManager_init bad_tool
             = Inl (ValueError ''Tool must have a 'name' in its definition'')"
    by blast
  from b C3_register_tool_nameless_or_named
         [of "SearchTool (CourseSearchTool_init example_store)"
             "\<lparr>tools = [(''search_course_content'', SearchTool used_search_tool)]\<rparr>"
             "''search_course_content''"]
  have d: "register_tool \<lparr>tools = [(''search_course_content'', SearchTool used_search_tool)]\<rparr>
        (SearchTool (CourseSearchTool_init example_store))
       = Inr \<lparr>tools = [(''search_course_content'', SearchTool (CourseSearchTool_init example_store))]\<rparr>"
    by simp
  from a b c d show ?thesis by blast
qed

text \<open>
  C3 as stated fails for a tool whose name is registered already: the second registration
  of the name \<open>search_course_content\<close> raises nothing and overwrites the first.
\<close>

theorem C3_duplicate_name_counterexample:
  "register_tool ToolManager_init (SearchTool used_search_tool)
     = Inr \<lparr>tools = [(''search_course_content'', SearchTool used_search_tool)]\<rparr>
   \<and> register_tool \<lparr>tools = [(''search_course_content'', SearchTool used_search_tool)]\<rparr>
        (SearchTool (CourseSearchTool_init example_store))
       = Inr \<lparr>tools = [(''search_course_content'', SearchTool (CourseSearchTool_init example_store))]\<rparr>"
  by (simp add: register_tool_def ToolManager_init_def)

text \<open>
  C6, amended. For keyword arguments among which none is named \<open>tool_name\<close> or \<open>self\<close>:
  for a tool name that is not a key of the registry, \<open>execute_tool\<close> returns the string
  \<open>"Tool '<name>' not found"\<close>, raises nothing and leaves the manager as it was; for a
  registered name it passes the keyword arguments to \<open>execute\<close> of the tool stored under
  that name and returns what that call returns, unchanged, the tool keeping its place in
  the registry in the state the call left it in. A keyword named \<open>tool_name\<close> or \<open>self\<close>
  makes the call raise \<open>TypeError\<close>, whatever the tool name.
\<close>

theorem C6_execute_tool_dispatch:
  "(''tool_name'' \<notin> set (map fst kw) \<and> ''self'' \<notin> set (map fst kw)
      \<and> tool_name \<notin> set (map fst (tools self)) \<longrightarrow>
      execute_tool loads self tool_name kw =
        (Inr (''Tool '' @ [CHR 0x27] @ tool_name @ [CHR 0x27] @ '' not found''), self))
   \<and> (''tool_name'' \<notin> set (map fst kw) \<and> ''self'' \<notin> set (map fst kw)
        \<and> map_of (tools self) tool_name = Some tool \<longrightarrow>
        fst (execute_tool loads self tool_name kw) = fst (tool_execute loads tool kw)
        \<and> tools (snd (execute_tool loads self tool_name kw)) =
            dict_set (tools self) tool_name (snd (tool_execute loads tool kw)))
   \<and> (''tool_name'' \<in> set (map fst kw) \<or> ''self'' \<in> set (map fst kw) \<longrightarrow>
        execute_tool loads self tool_name kw =
          (Inl (TypeError ''execute_tool() got multiple values for argument''), self))"
proof -
  have "map_of (tools self) tool_name = None" if "tool_name \<notin> set (map fst (tools self))"
    using that by (simp add: map_of_eq_None_iff)
  then show ?thesis
    by (auto simp add: execute_tool_def split: prod.splits)
qed

text \<open>
  The unknown name of \<open>test_execute_nonexistent_tool\<close>, a registered search tool whose
  search fails, and a call with a keyword named \<open>tool_name\<close>.
\<close>

theorem C6_execute_tool_dispatch_witness:
  "''tool_name'' \<notin> set (map fst [(''query'', PStr ''test'')])
   \<and> ''self'' \<notin> set (map fst [(''query'', PStr ''test'')])
   \<and> ''nonexistent_tool'' \<notin> set (map fst (tools ToolManager_init))
   \<and> execute_tool example_loads ToolManager_init ''nonexistent_tool'' [(''query'', PStr ''test'')]
       = (Inr ''Tool 'nonexistent_tool' not found'', ToolManager_init)
   \<and> ''tool_name'' \<notin> set (map fst [(''query'', PStr ''fail'')])
   \<and> ''self'' \<notin> set (map fst [(''query'', PStr ''fail'')])
   \<and> map_of (tools \<lparr>tools = [(''search_course_content'', SearchTool used_search_tool)]\<rparr>)
        ''search_course_content'' = Some (SearchTool used_search_tool)
   \<and> fst (execute_tool example_loads
             \<lparr>tools = [(''search_course_content'', SearchTool used_search_tool)]\<rparr>
             ''search_course_content'' [(''query'', PStr ''fail'')])
       = Inr ''Database connection failed''
   \<and> (''tool_name'' \<in> set (map fst [(''tool_name'', PStr ''get_course_outline'')])
        \<or> ''self'' \<in> set (map fst [(''tool_name'', PStr ''get_course_outline'')]))
   \<and> execute_tool example_loads
        \<lparr>tools = [(''search_course_content'', SearchTool used_search_tool)]\<rparr>
        ''search_course_content'' [(''tool_name'', PStr ''get_course_outline'')]
       = (Inl (TypeError ''execute_tool() got multiple values for argument''),
          \<lparr>tools = [(''search_course_content'', SearchTool used_search_tool)]\<rparr>)"
proof -
  have k1: "''tool_name'' \<notin> set (map fst [(''query'', PStr ''test'')])
            \<and> ''self'' \<notin> set (map fst [(''query'', PStr ''test'')])"
    by simp
  have k2: "''tool_name'' \<notin> set (map fst [(''query'', PStr ''fail'')])
            \<and> ''self'' \<notin> set (map fst [(''query'', PStr ''fail'')])"
    by simp
  have k3: "''tool_name'' \<in> set (map fst [(''tool_name'', PStr ''get_course_outline'')])
            \<or> ''self'' \<in> set (map fst [(''tool_name'', PStr ''get_course_outline'')])"
    by simp
  have a: "''nonexistent_tool'' \<notin> set (map fst (tools ToolManager_init))"
    by (simp add: ToolManager_init_def)
  have b: "map_of (tools \<lparr>tools = [(''search_course_content'', SearchTool used_search_tool)]\<rparr>)
        ''search_course_content'' = Some (SearchTool used_search_tool)"
    by simp
  have e: "execute used_search_tool (PStr ''fail'') PNone PNone
             = (''Database connection failed'', used_search_tool)"
    by (rule execute_error) (simp_all add: used_search_tool_eq example_search)
  have c: "fst (tool_execute example_loads (SearchTool used_search_tool) [(''query'', PStr ''fail'')])
             = Inr ''Database connection failed''"
    by (simp add: CourseSearchTool_call_def kw_get_def e)
  from k1 a C6_execute_tool_dispatch
         [of "[(''query'', PStr ''test'')]" "''nonexistent_tool''" ToolManager_init example_loads]
  have d: "execute_tool example_loads ToolManager_init ''nonexistent_tool'' [(''query'', PStr ''test'')]
       = (Inr ''Tool 'nonexistent_tool' not found'', ToolManager_init)"
    by simp
  from k2 b c C6_execute_tool_dispatch
         [of "[(''query'', PStr ''fail'')]" "''search_course_content''"
             "\<lparr>tools = [(''search_course_content'', SearchTool used_search_tool)]\<rparr>"
             example_loads "SearchTool used_search_tool"]
  have f: "fst (execute_tool example_loads
             \<lparr>tools = [(''search_course_content'', SearchTool used_search_tool)]\<rparr>
             ''search_course_content'' [(''query'', PStr ''fail'')])
       = Inr ''Database connection failed''"
    by simp
  from k3 C6_execute_tool_dispatch
         [of "[(''tool_name'', PStr ''get_course_outline'')]" "''search_course_content''"
             "\<lparr>tools = [(''search_course_content'', SearchTool used_search_tool)]\<rparr>"
             example_loads "SearchTool used_search_tool"]
  have g: "execute_tool example_loads
        \<lparr>tools = [(''search_course_content'', SearchTool used_search_tool)]\<rparr>
        ''search_course_content'' [(''tool_name'', PStr ''get_course_outline'')]
       = (Inl (TypeError ''execute_tool() got multiple values for argument''),
          \<lparr>tools = [(''search_course_content'', SearchTool used_search_tool)]\<rparr>)"
    by blast
  from k1 k2 k3 a b d f g show ?thesis by blast
qed

text \<open>
  C6 as stated fails for keyword arguments that contain a keyword named \<open>tool_name\<close>: for
  a name that is not registered the call raises \<open>TypeError\<close> and does not return the
  string \<open>"Tool 'nonexistent_tool' not found"\<close>.
\<close>

theorem C6_keyword_tool_name_counterexample:
  "''nonexistent_tool'' \<notin> set (map fst (tools ToolManager_init))
   \<and> execute_tool example_loads ToolManager_init ''nonexistent_tool''
        [(''tool_name'', PStr ''search_course_content'')]
       = (Inl (TypeError ''execute_tool() got multiple values for argument''), ToolManager_init)
   \<and> fst (execute_tool example_loads ToolManager_init ''nonexistent_tool''
             [(''tool_name'', PStr ''search_course_content'')])
       \<noteq> Inr ''Tool 'nonexistent_tool' not found''"
  by (simp add: execute_tool_def ToolManager_init_def)

text \<open>
  C9. After \<open>reset_sources\<close>, \<open>get_last_sources\<close> returns the empty list, whatever tools
  are registered and whatever they held, in particular after any call of
  \<open>execute_tool\<close>. It also returns the empty list for a new \<open>ToolManager\<close>, and for a new
  \<open>ToolManager\<close> in which any number of newly constructed search and outline tools have
  been registered, which always succeeds.
\<close>

theorem C9_no_sources_after_reset_and_construction:
  "get_last_sources (reset_sources self) = []
   \<and> get_last_sources (reset_sources (snd (execute_tool loads self tool_name kw))) = []
   \<and> get_last_sources ToolManager_init = []
   \<and> (list_all (\<lambda>t. (\<exists>st. t = SearchTool (CourseSearchTool_init st))
                      \<or> (\<exists>st. t = OutlineTool (CourseOutlineTool_init st))) ts \<longrightarrow>
        (\<exists>self'. register_all ToolManager_init ts = Inr self' \<and> get_last_sources self' = []))"
proof -
  have i: "get_last_sources ToolManager_init = []"
    by (simp add: get_last_sources_def ToolManager_init_def)
  show ?thesis
    using i get_last_sources_reset register_all_fresh [OF i, of ts] by blast
qed

text \<open>
  A manager with a new search tool and a new outline tool has no sources; a manager whose
  search tool holds two sources has none after the reset.
\<close>

theorem C9_no_sources_after_reset_and_construction_witness:
  "list_all (\<lambda>t. (\<exists>st. t = SearchTool (CourseSearchTool_init st))
                      \<or> (\<exists>st. t = OutlineTool (CourseOutlineTool_init st)))
      [SearchTool (CourseSearchTool_init example_store),
       OutlineTool (CourseOutlineTool_init example_store)]
   \<and> register_all ToolManager_init
        [SearchTool (CourseSearchTool_init example_store),
         OutlineTool (CourseOutlineTool_init example_store)]
       = Inr \<lparr>tools = [(''search_course_content'', SearchTool (CourseSearchTool_init example_store)),
                        (''get_course_outline'', OutlineTool (CourseOutlineTool_init example_store))]\<rparr>
   \<and> get_last_sources
        \<lparr>tools = [(''search_course_content'', SearchTool (CourseSearchTool_init example_store)),
                  (''get_course_outline'', OutlineTool (CourseOutlineTool_init example_store))]\<rparr> = []
   \<and> get_last_sources \<lparr>tools = [(''search_course_content'', SearchTool used_search_tool)]\<rparr>
       = last_sources used_search_tool
   \<and> last_sources used_search_tool \<noteq> []
   \<and> get_last_sources
        (reset_sources \<lparr>tools = [(''search_course_content'', SearchTool used_search_tool)]\<rparr>) = []"
proof -
  have a: "list_all (\<lambda>t. (\<exists>st. t = SearchTool (CourseSearchTool_init st))
                      \<or> (\<exists>st. t = OutlineTool (CourseOutlineTool_init st)))
      [SearchTool (CourseSearchTool_init example_store),
       OutlineTool (CourseOutlineTool_init example_store)]"
    by auto
  have b: "register_all ToolManager_init
        [SearchTool (CourseSearchTool_init example_store),
         OutlineTool (CourseOutlineTool_init example_store)]
       = Inr \<lparr>tools = [(''search_course_content'', SearchTool (CourseSearchTool_init example_store)),
                        (''get_course_outline'', OutlineTool (CourseOutlineTool_init example_store))]\<rparr>"
    by (simp add: register_tool_def ToolManager_init_def)
  have c: "get_last_sources \<lparr>tools = [(''search_course_content'', SearchTool used_search_tool)]\<rparr>
       = last_sources used_search_tool \<and> last_sources used_search_tool \<noteq> []"
    by (simp add: get_last_sources_def used_search_tool_eq)
  from a b c C9_no_sources_after_reset_and_construction
      [of "\<lparr>tools = [(''search_course_content'', SearchTool used_search_tool)]\<rparr>"
          example_loads "''x''" "[]"
          "[SearchTool (CourseSearchTool_init example_store),
            OutlineTool (CourseOutlineTool_init example_store)]"]
  show ?thesis by auto
qed


section \<open>Properties of CourseOutlineTool\<close>



text \<open>The loop over the lessons appends the lines of each lesson in turn.\<close>

lemma lessons_loop_eq: "lessons_loop parts ls = parts @ concat (map lesson_lines ls)"
  by (induction ls arbitrary: parts) auto

lemma lesson_lines_eq:
  "lesson_lines l =
     (bullet @ '' Lesson '' @ (case les_number l of None \<Rightarrow> ''N/A'' | Some n \<Rightarrow> str_int n)
        @ '': '' @ (case les_title l of None \<Rightarrow> ''Untitled Lesson'' | Some t \<Rightarrow> t))
     # (case les_link l of
          None \<Rightarrow> []
        | Some k \<Rightarrow> if k = [] then [] else [''  Link: '' @ k])"
  by (simp add: lesson_lines_def Let_def split: option.splits)


lemma outline_parts_lessons:
  assumes "loads (case lessons_json m of None \<Rightarrow> ''[]'' | Some j \<Rightarrow> j) = Inr lessons"
    and "lessons \<noteq> []"
  shows "outline_parts loads m =
     Inr (header_parts m
            @ [NL @ ''**Course Outline ('' @ str_nat (length lessons) @ '' lessons):**'']
            @ concat (map lesson_lines (sort_key sort_key_of lessons)))"
  using assms by (simp add: outline_parts_def Let_def lessons_loop_eq)

text \<open>In a list sorted by the sort key, the lesson numbers that are present ascend.\<close>

lemma sorted_present_numbers:
  assumes "sorted (map sort_key_of ls)"
  shows "sorted (map the (filter (\<lambda>n. n \<noteq> None) (map les_number ls)))"
proof -
  have "map the (filter (\<lambda>n. n \<noteq> None) (map les_number ls))
          = map sort_key_of (filter (\<lambda>l. les_number l \<noteq> None) ls)"
    by (induction ls) (auto simp add: sort_key_of_def)
  moreover have "sorted (map sort_key_of (filter (\<lambda>l. les_number l \<noteq> None) ls))"
    using assms by (rule sorted_filter)
  ultimately show ?thesis by simp
qed



text \<open>
  C8. When \<open>json.loads\<close> returns a non-empty lesson list, the outline consists of the
  header lines, the line \<open>"\n**Course Outline (<k> lessons):**"\<close> with the number \<open>k\<close> of
  lessons, and then the lines of the lessons in the order \<open>ordered\<close>: a rearrangement of
  the parsed list that ascends in the lesson number (a lesson without a number counting
  as 0), so that the lesson numbers shown ascend. Each lesson gives the bullet line
  \<open>"<bullet> Lesson <number>: <title>"\<close>, followed by the line \<open>"  Link: <link>"\<close> when
  it has a non-empty link. A missing number is shown as \<open>N/A\<close>, a missing title as
  \<open>Untitled Lesson\<close>.
\<close>

theorem C8_lessons_sorted_by_number:
  assumes "loads (case lessons_json m of None \<Rightarrow> ''[]'' | Some j \<Rightarrow> j) = Inr lessons"
    and "lessons \<noteq> []"
    and "ordered = sort_key sort_key_of lessons"
  shows "mset ordered = mset lessons
       \<and> sorted (map (\<lambda>l. case les_number l of None \<Rightarrow> 0 | Some n \<Rightarrow> n) ordered)
       \<and> sorted (map the (filter (\<lambda>n. n \<noteq> None) (map les_number ordered)))
       \<and> outline_parts loads m =
           Inr (header_parts m
                  @ [NL @ ''**Course Outline ('' @ str_nat (length lessons) @ '' lessons):**'']
                  @ concat (map (\<lambda>l.
                      (bullet @ '' Lesson ''
                         @ (case les_number l of None \<Rightarrow> ''N/A'' | Some n \<Rightarrow> str_int n)
                         @ '': ''
                         @ (case les_title l of None \<Rightarrow> ''Untitled Lesson'' | Some t \<Rightarrow> t))
                      # (case les_link l of
                           None \<Rightarrow> []
                         | Some k \<Rightarrow> if k = [] then [] else [''  Link: '' @ k])) ordered))
       \<and> format_outline loads m =
           Inr (join NL (header_parts m
                  @ [NL @ ''**Course Outline ('' @ str_nat (length lessons) @ '' lessons):**'']
                  @ concat (map lesson_lines ordered)))"
proof -
  have s: "sorted (map sort_key_of ordered)"
    using assms(3) by simp
  have k: "sort_key_of = (\<lambda>l. case les_number l of None \<Rightarrow> 0 | Some n \<Rightarrow> n)"
    by (simp add: fun_eq_iff sort_key_of_def)
  have l: "lesson_lines = (\<lambda>l.
                      (bullet @ '' Lesson ''
                         @ (case les_number l of None \<Rightarrow> ''N/A'' | Some n \<Rightarrow> str_int n)
                         @ '': ''
                         @ (case les_title l of None \<Rightarrow> ''Untitled Lesson'' | Some t \<Rightarrow> t))
                      # (case les_link l of
                           None \<Rightarrow> []
                         | Some k \<Rightarrow> if k = [] then [] else [''  Link: '' @ k]))"
    by (simp add: fun_eq_iff lesson_lines_eq)
  have p: "outline_parts loads m =
     Inr (header_parts m
            @ [NL @ ''**Course Outline ('' @ str_nat (length lessons) @ '' lessons):**'']
            @ concat (map lesson_lines ordered))"
    using outline_parts_lessons [of loads m lessons] assms by simp
  have 1: "mset ordered = mset lessons" using assms(3) by simp
  have 2: "sorted (map (\<lambda>l. case les_number l of None \<Rightarrow> 0 | Some n \<Rightarrow> n) ordered)"
    using s unfolding k .
  have 3: "sorted (map the (filter (\<lambda>n. n \<noteq> None) (map les_number ordered)))"
    using s by (rule sorted_present_numbers)
  have 4: "format_outline loads m =
           Inr (join NL (header_parts m
                  @ [NL @ ''**Course Outline ('' @ str_nat (length lessons) @ '' lessons):**'']
                  @ concat (map lesson_lines ordered)))"
    by (simp add: format_outline_def p)
  from p have 5: "outline_parts loads m =
           Inr (header_parts m
                  @ [NL @ ''**Course Outline ('' @ str_nat (length lessons) @ '' lessons):**'']
                  @ concat (map (\<lambda>l.
                      (bullet @ '' Lesson ''
                         @ (case les_number l of None \<Rightarrow> ''N/A'' | Some n \<Rightarrow> str_int n)
                         @ '': ''
                         @ (case les_title l of None \<Rightarrow> ''Untitled Lesson'' | Some t \<Rightarrow> t))
                      # (case les_link l of
                           None \<Rightarrow> []
                         | Some k \<Rightarrow> if k = [] then [] else [''  Link: '' @ k])) ordered))"
    by (subst (asm) l)
  from 1 2 3 4 5 show ?thesis by blast
qed


text \<open>Three lessons stored in the order 2, 1, unnumbered.\<close>

theorem C8_lessons_sorted_by_number_witness:
  "example_loads (case lessons_json (example_course ''three'') of None \<Rightarrow> ''[]'' | Some j \<Rightarrow> j)
     = Inr [\<lparr>les_number = Some 2, les_title = Some ''Setting up MCP'',
               les_link = Some ''https://example.com/lesson2''\<rparr>,
            \<lparr>les_number = Some 1, les_title = Some ''What is MCP?'', les_link = None\<rparr>,
            \<lparr>les_number = None, les_title = None, les_link = Some []\<rparr>]
   \<and> outline_parts example_loads (example_course ''three'')
       = Inr [''**Intro to MCP**'',
              ''Course Link: https://example.com/mcp-intro'',
              ''Instructor: Claude AI'',
              ''\<newline>**Course Outline (3 lessons):**'',
              bullet @ '' Lesson N/A: Untitled Lesson'',
              bullet @ '' Lesson 1: What is MCP?'',
              bullet @ '' Lesson 2: Setting up MCP'',
              ''  Link: https://example.com/lesson2'']"
proof -
  have a: "example_loads (case lessons_json (example_course ''three'') of None \<Rightarrow> ''[]'' | Some j \<Rightarrow> j)
     = Inr [\<lparr>les_number = Some 2, les_title = Some ''Setting up MCP'',
               les_link = Some ''https://example.com/lesson2''\<rparr>,
            \<lparr>les_number = Some 1, les_title = Some ''What is MCP?'', les_link = None\<rparr>,
            \<lparr>les_number = None, les_title = None, les_link = Some []\<rparr>]"
    by (simp add: example_loads_def example_course_def)
  have b: "[\<lparr>les_number = Some 2, les_title = Some ''Setting up MCP'',
               les_link = Some ''https://example.com/lesson2''\<rparr>,
            \<lparr>les_number = Some 1, les_title = Some ''What is MCP?'', les_link = None\<rparr>,
            \<lparr>les_number = None, les_title = None, les_link = Some []\<rparr>] \<noteq> []"
    by simp
  have c: "sort_key sort_key_of
            [\<lparr>les_number = Some 2, les_title = Some ''Setting up MCP'',
               les_link = Some ''https://example.com/lesson2''\<rparr>,
             \<lparr>les_number = Some 1, les_title = Some ''What is MCP?'', les_link = None\<rparr>,
             \<lparr>les_number = None, les_title = None, les_link = Some []\<rparr>]
          = [\<lparr>les_number = None, les_title = None, les_link = Some []\<rparr>,
             \<lparr>les_number = Some 1, les_title = Some ''What is MCP?'', les_link = None\<rparr>,
             \<lparr>les_number = Some 2, les_title = Some ''Setting up MCP'',
               les_link = Some ''https://example.com/lesson2''\<rparr>]"
    by (simp add: sort_key_of_def)
  from C8_lessons_sorted_by_number [of example_loads "example_course ''three''", OF a b c [symmetric]]
  have "outline_parts example_loads (example_course ''three'')
       = Inr [''**Intro to MCP**'',
              ''Course Link: https://example.com/mcp-intro'',
              ''Instructor: Claude AI'',
              ''\<newline>**Course Outline (3 lessons):**'',
              bullet @ '' Lesson N/A: Untitled Lesson'',
              bullet @ '' Lesson 1: What is MCP?'',
              bullet @ '' Lesson 2: Setting up MCP'',
              ''  Link: https://example.com/lesson2'']"
    by (simp add: header_parts_def example_course_def str_int_small str_nat.simps digit_def)
  with a show ?thesis by blast
qed

end
